theory Spec2Isabelle
  imports Main
begin

section \<open>JavaScript values and the browser\<close>

text \<open>
  The client is TypeScript that runs as JavaScript, and what the HTTP client returns is
  whatever object its code builds (the casts \<^verbatim>\<open>as ApiResponse<T>\<close> check nothing at
  run time). Values are therefore modelled untyped: an object is the list of its own
  properties in insertion order. \<open>Err\<close> is an object for which
  \<^verbatim>\<open>instanceof Error\<close> holds; \<open>Obj\<close> is any other object.
\<close>

datatype jsval =
    Undefined
  | Null
  | Bool bool
  | Num int
  | Str string
  | Obj "(string \<times> jsval) list"
  | Err "(string \<times> jsval) list"

text \<open>What \<^verbatim>\<open>if (v)\<close>, \<^verbatim>\<open>v && ..\<close> and \<^verbatim>\<open>v || ..\<close> test.\<close>

fun truthy :: "jsval \<Rightarrow> bool" where
  "truthy Undefined = False"
| "truthy Null = False"
| "truthy (Bool b) = b"
| "truthy (Num n) = (n \<noteq> 0)"
| "truthy (Str s) = (s \<noteq> [])"
| "truthy (Obj kvs) = True"
| "truthy (Err kvs) = True"

definition js_or :: "jsval \<Rightarrow> jsval \<Rightarrow> jsval" where
  "js_or a b = (if truthy a then a else b)"

text \<open>
  Reading a property, \<^verbatim>\<open>v?.k\<close>: \<^verbatim>\<open>undefined\<close> when \<open>v\<close> has no such
  property. The plain reads \<^verbatim>\<open>v.k\<close> of the source are all on objects (a request
  configuration, a response, a caught error), where both forms agree.
\<close>

fun get_prop :: "jsval \<Rightarrow> string \<Rightarrow> jsval" where
  "get_prop (Obj kvs) k = (case map_of kvs k of None \<Rightarrow> Undefined | Some v \<Rightarrow> v)"
| "get_prop (Err kvs) k = (case map_of kvs k of None \<Rightarrow> Undefined | Some v \<Rightarrow> v)"
| "get_prop v k = Undefined"

text \<open>Writing a property keeps the position of a key that exists and appends a new one.\<close>

fun set_kv :: "string \<Rightarrow> jsval \<Rightarrow> (string \<times> jsval) list \<Rightarrow> (string \<times> jsval) list" where
  "set_kv k v [] = [(k, v)]"
| "set_kv k v (p # ps) = (if fst p = k then (k, v) # ps else p # set_kv k v ps)"

fun set_prop :: "jsval \<Rightarrow> string \<Rightarrow> jsval \<Rightarrow> jsval" where
  "set_prop (Obj kvs) k v = Obj (set_kv k v kvs)"
| "set_prop (Err kvs) k v = Err (set_kv k v kvs)"
| "set_prop u k v = u"

fun own_keys :: "jsval \<Rightarrow> string list" where
  "own_keys (Obj kvs) = map fst kvs"
| "own_keys (Err kvs) = map fst kvs"
| "own_keys v = []"

text \<open>
  The browser side of the world: \<^verbatim>\<open>localStorage\<close> and the target of the last
  assignment to \<^verbatim>\<open>window.location.href\<close>. On the server there is no
  \<^verbatim>\<open>window\<close> (\<open>window w = None\<close>) and no \<^verbatim>\<open>localStorage\<close>. The
  notifications shown with \<^verbatim>\<open>toast\<close> are kept in order; console logging is left out.
\<close>

record browser =
  localStorage :: "string \<rightharpoonup> string"
  location_href :: string

record world =
  window :: "browser option"
  toasts :: "(string \<times> jsval) list"

definition toast :: "string \<Rightarrow> jsval \<Rightarrow> world \<Rightarrow> world" where
  "toast kind msg w = w\<lparr>toasts := toasts w @ [(kind, msg)]\<rparr>"

section \<open>The auth slice (store/slices/authSlice.ts)\<close>

record user_profile =
  user_id :: string
  user_email :: string
  user_name :: string
  user_role :: string
  createdAt :: "string option"
  updatedAt :: "string option"

text \<open>\<^verbatim>\<open>AuthResponse\<close>, the payload of \<^verbatim>\<open>setCredentials\<close>.\<close>

record auth_response =
  resp_token :: string
  resp_user :: user_profile

text \<open>\<^verbatim>\<open>AuthState\<close>; \<open>None\<close> is \<^verbatim>\<open>null\<close>.\<close>

record auth_state =
  token :: "string option"
  user :: "user_profile option"
  isAuthenticated :: bool
  loading :: bool
  error :: "string option"

definition initialState :: "world \<Rightarrow> auth_state" where
  "initialState w =
     \<lparr>token = (case window w of None \<Rightarrow> None | Some b \<Rightarrow> localStorage b ''auth_token''),
      user = None,
      isAuthenticated = False,
      loading = False,
      error = None\<rparr>"

text \<open>
  A reducer mutates the draft state and, for two of them, \<^verbatim>\<open>localStorage\<close>: each takes
  and returns the pair of slice state and world.
\<close>

definition setCredentials :: "auth_response \<Rightarrow> auth_state \<times> world \<Rightarrow> auth_state \<times> world" where
  "setCredentials payload sw =
     (let (state, w) = sw;
          state' = state\<lparr>token := Some (resp_token payload),
                         user := Some (resp_user payload),
                         isAuthenticated := True,
                         error := None\<rparr>
      in case window w of
           None \<Rightarrow> (state', w)
         | Some b \<Rightarrow>
             (state', w\<lparr>window := Some (b\<lparr>localStorage :=
                                             (localStorage b)(''auth_token'' \<mapsto> resp_token payload)\<rparr>)\<rparr>))"

definition setUser :: "user_profile \<Rightarrow> auth_state \<times> world \<Rightarrow> auth_state \<times> world" where
  "setUser payload sw = (let (state, w) = sw in (state\<lparr>user := Some payload\<rparr>, w))"

definition setLoading :: "bool \<Rightarrow> auth_state \<times> world \<Rightarrow> auth_state \<times> world" where
  "setLoading payload sw = (let (state, w) = sw in (state\<lparr>loading := payload\<rparr>, w))"

definition setError :: "string \<Rightarrow> auth_state \<times> world \<Rightarrow> auth_state \<times> world" where
  "setError payload sw = (let (state, w) = sw in (state\<lparr>error := Some payload\<rparr>, w))"

definition logout :: "auth_state \<times> world \<Rightarrow> auth_state \<times> world" where
  "logout sw =
     (let (state, w) = sw;
          state' = state\<lparr>token := None, user := None, isAuthenticated := False, error := None\<rparr>
      in case window w of
           None \<Rightarrow> (state', w)
         | Some b \<Rightarrow>
             (state', w\<lparr>window := Some (b\<lparr>localStorage :=
                                             (localStorage b)(''auth_token'' := None)\<rparr>)\<rparr>))"

text \<open>The actions the slice exports, and the store dispatching a sequence of them.\<close>

datatype action =
    SetCredentials auth_response
  | SetUser user_profile
  | SetLoading bool
  | SetError string
  | Logout

fun authReducer :: "action \<Rightarrow> auth_state \<times> world \<Rightarrow> auth_state \<times> world" where
  "authReducer (SetCredentials p) sw = setCredentials p sw"
| "authReducer (SetUser p) sw = setUser p sw"
| "authReducer (SetLoading p) sw = setLoading p sw"
| "authReducer (SetError p) sw = setError p sw"
| "authReducer Logout sw = logout sw"

fun dispatch_all :: "action list \<Rightarrow> auth_state \<times> world \<Rightarrow> auth_state \<times> world" where
  "dispatch_all [] sw = sw"
| "dispatch_all (a # as) sw = dispatch_all as (authReducer a sw)"

section \<open>The route guard (middleware.ts)\<close>

text \<open>
  A navigation request as the guard reads it: \<^verbatim>\<open>request.url\<close> is the origin followed
  by the path and the query string, \<^verbatim>\<open>request.nextUrl.pathname\<close> is the path, and
  \<^verbatim>\<open>request.cookies\<close> maps a cookie's name to its value.
\<close>

record request =
  origin :: string
  pathname :: string
  search :: string
  cookies :: "string \<rightharpoonup> string"

definition request_url :: "request \<Rightarrow> string" where
  "request_url r = origin r @ pathname r @ search r"

text \<open>A \<^verbatim>\<open>URL\<close> object, its query kept as the list of pairs of its \<^verbatim>\<open>searchParams\<close>.\<close>

record url =
  url_origin :: string
  url_pathname :: string
  searchParams :: "(string \<times> string) list"

datatype next_response = Redirect url | Next

definition protectedPaths :: "string list" where
  "protectedPaths = [''/profile'', ''/settings'']"

definition authPaths :: "string list" where
  "authPaths = [''/auth/login'', ''/auth/register'', ''/auth/forgot-password'']"

definition startsWith :: "string \<Rightarrow> string \<Rightarrow> bool" where
  "startsWith s p = (take (length p) s = p)"

definition isProtectedPath :: "string \<Rightarrow> bool" where
  "isProtectedPath pn = list_ex (\<lambda>path. pn = path \<or> startsWith pn (path @ ''/'')) protectedPaths"

definition isAuthPath :: "string \<Rightarrow> bool" where
  "isAuthPath pn = list_ex (\<lambda>path. pn = path \<or> startsWith pn (path @ ''/'')) authPaths"

text \<open>
  \<^verbatim>\<open>encodeURI\<close> leaves letters, digits and the marks
  \<^verbatim>\<open>; / ? : @ & = + $ , # - _ . ! ~ * ' ( )\<close> as they are and writes every other
  byte as \<^verbatim>\<open>%\<close> and two upper-case hexadecimal digits. A \<open>string\<close> is the byte
  sequence of the text; \<^verbatim>\<open>request.url\<close> is a serialised URL and holds ASCII only.
\<close>

definition uri_unescaped :: "char \<Rightarrow> bool" where
  "uri_unescaped c =
     (c \<in> set (''ABCDEFGHIJKLMNOPQRSTUVWXYZabcdefghijklmnopqrstuvwxyz0123456789''
               @ '';/?:@&=+$,#-_.!~*()'' @ [CHR 0x27]))"

definition hex_digit :: "nat \<Rightarrow> char" where
  "hex_digit n = ''0123456789ABCDEF'' ! (n mod 16)"

definition percent_encode :: "char \<Rightarrow> string" where
  "percent_encode c =
     [CHR ''%'', hex_digit ((of_char c :: nat) div 16), hex_digit ((of_char c :: nat) mod 16)]"

definition encodeURI :: "string \<Rightarrow> string" where
  "encodeURI s = concat (map (\<lambda>c. if uri_unescaped c then [c] else percent_encode c) s)"

text \<open>
  \<^verbatim>\<open>new URL(path, request.url)\<close> for a path that starts with a slash: the origin of the
  request, that path, and no query.
\<close>

definition new_URL :: "string \<Rightarrow> request \<Rightarrow> url" where
  "new_URL path r = \<lparr>url_origin = origin r, url_pathname = path, searchParams = []\<rparr>"

text \<open>
  \<^verbatim>\<open>searchParams.set\<close>: the first pair of that name takes the value and the later ones
  go; a new name is appended.
\<close>

fun searchParams_set :: "string \<Rightarrow> string \<Rightarrow> (string \<times> string) list \<Rightarrow> (string \<times> string) list" where
  "searchParams_set k v [] = [(k, v)]"
| "searchParams_set k v (p # ps) =
     (if fst p = k then (k, v) # filter (\<lambda>q. fst q \<noteq> k) ps else p # searchParams_set k v ps)"

text \<open>\<^verbatim>\<open>searchParams.get\<close>: the value of the first pair of that name.\<close>

definition searchParams_get :: "url \<Rightarrow> string \<Rightarrow> string option" where
  "searchParams_get u k = map_of (searchParams u) k"

text \<open>
  The cookie's value is \<^verbatim>\<open>request.cookies.get('auth_token')?.value\<close>, a string or
  \<^verbatim>\<open>undefined\<close>; the guard tests it for truthiness, so an empty value counts as none.
\<close>

definition cookie_truthy :: "string option \<Rightarrow> bool" where
  "cookie_truthy t = (case t of None \<Rightarrow> False | Some v \<Rightarrow> v \<noteq> [])"

text \<open>
  The function \<^verbatim>\<open>middleware\<close>, for a request that reaches it. Which requests do is
  decided by the \<^verbatim>\<open>matcher\<close> pattern of \<^verbatim>\<open>config\<close>, which keeps static assets
  and image files away from the guard and is not part of the function.
\<close>

definition middleware :: "request \<Rightarrow> next_response" where
  "middleware r =
     (let tok = cookies r ''auth_token'' in
      if isProtectedPath (pathname r) \<and> \<not> cookie_truthy tok then
        (let u = new_URL ''/auth/login'' r
         in Redirect (u\<lparr>searchParams :=
                          searchParams_set ''callbackUrl'' (encodeURI (request_url r)) (searchParams u)\<rparr>))
      else if isAuthPath (pathname r) \<and> cookie_truthy tok then
        Redirect (new_URL ''/dashboard'' r)
      else Next)"

section \<open>Promises and the axios pipeline\<close>

text \<open>
  A settled promise. A handler is what \<^verbatim>\<open>.then\<close> is given: it takes the settled value
  and returns a value or a resolved promise (\<open>Fulfilled\<close>), or throws or returns a rejected
  promise (\<open>Rejected\<close>), and it may change the world on the way.
\<close>

datatype promise = Fulfilled jsval | Rejected jsval

type_synonym handler = "jsval \<Rightarrow> world \<Rightarrow> promise \<times> world"

fun promise_then :: "promise \<times> world \<Rightarrow> handler \<Rightarrow> handler \<Rightarrow> promise \<times> world" where
  "promise_then (Fulfilled v, w) onFulfilled onRejected = onFulfilled v w"
| "promise_then (Rejected e, w) onFulfilled onRejected = onRejected e w"

definition pass_rejected :: handler where
  "pass_rejected e w = (Rejected e, w)"

text \<open>Object literals: \<^verbatim>\<open>{...a}\<close> and \<^verbatim>\<open>{...a, k1: v1, k2: v2}\<close>.\<close>

fun spread :: "jsval \<Rightarrow> (string \<times> jsval) list" where
  "spread (Obj kvs) = kvs"
| "spread (Err kvs) = kvs"
| "spread v = []"

definition object_with :: "(string \<times> jsval) list \<Rightarrow> (string \<times> jsval) list \<Rightarrow> jsval" where
  "object_with base kvs = Obj (foldl (\<lambda>acc kv. set_kv (fst kv) (snd kv) acc) base kvs)"

definition arg :: "jsval list \<Rightarrow> nat \<Rightarrow> jsval" where
  "arg args i = (if i < length args then args ! i else Undefined)"

text \<open>
  What the network does with a request is a parameter: a reply with status, status text,
  body and headers, or no reply at all (with the message axios reports, such as
  \<^verbatim>\<open>Network Error\<close>).
\<close>

datatype reply = HttpReply nat string jsval jsval | NoReply string

type_synonym network = "jsval \<Rightarrow> reply"

fun show_nat :: "nat \<Rightarrow> string" where
  "show_nat n =
     (if n < 10 then [''0123456789'' ! n] else show_nat (n div 10) @ [''0123456789'' ! (n mod 10)])"

declare show_nat.simps [simp del]

text \<open>
  The axios library is not part of the repository; this is the behaviour of it that the
  client relies on. A request method builds the configuration from the caller's options,
  the instance's default headers are merged under the caller's, and the request settles
  by the default \<^verbatim>\<open>validateStatus\<close>: a status from 200 to 299 fulfils with the response,
  any other rejects with an \<^verbatim>\<open>AxiosError\<close> that carries the response, and a request
  without reply rejects with an \<^verbatim>\<open>AxiosError\<close> that carries none. Of the caller's
  options only \<^verbatim>\<open>headers\<close> and \<^verbatim>\<open>data\<close> are interpreted; the others travel in
  the configuration unread.
\<close>

definition axios_defaults :: "(string \<times> jsval) list \<Rightarrow> jsval \<Rightarrow> jsval" where
  "axios_defaults default_headers config =
     object_with (spread config)
       [(''headers'', object_with default_headers (spread (get_prop config ''headers'')))]"

definition dispatchRequest :: "network \<Rightarrow> handler" where
  "dispatchRequest net config w =
     (case net config of
        HttpReply status statusText body headers \<Rightarrow>
          (let response = Obj [(''data'', body), (''status'', Num (int status)),
                               (''statusText'', Str statusText), (''headers'', headers),
                               (''config'', config)]
           in if 200 \<le> status \<and> status < 300 then (Fulfilled response, w)
              else (Rejected (Err [(''message'', Str (''Request failed with status code '' @ show_nat status)),
                                   (''name'', Str ''AxiosError''),
                                   (''isAxiosError'', Bool True),
                                   (''config'', config),
                                   (''response'', response)]), w))
      | NoReply msg \<Rightarrow>
          (Rejected (Err [(''message'', Str msg),
                          (''name'', Str ''AxiosError''),
                          (''isAxiosError'', Bool True),
                          (''config'', config)]), w))"

text \<open>
  One request through an instance: the request interceptor, the network, the response
  interceptor, chained with \<^verbatim>\<open>.then\<close> from the resolved configuration.
\<close>

definition axios_request ::
  "handler \<Rightarrow> handler \<Rightarrow> handler \<Rightarrow> handler \<Rightarrow> network \<Rightarrow> handler" where
  "axios_request request_fulfilled request_rejected response_fulfilled response_rejected net config w =
     promise_then
       (promise_then
          (promise_then (Fulfilled config, w) request_fulfilled request_rejected)
          (dispatchRequest net) pass_rejected)
       response_fulfilled response_rejected"

text \<open>
  \<^verbatim>\<open>localStorage.getItem\<close> gives the stored string or \<^verbatim>\<open>null\<close>. Where
  \<^verbatim>\<open>localStorage\<close> is not defined, naming it throws a \<^verbatim>\<open>ReferenceError\<close>.
\<close>

definition getItem :: "browser \<Rightarrow> string \<Rightarrow> jsval" where
  "getItem b k = (case localStorage b k of None \<Rightarrow> Null | Some v \<Rightarrow> Str v)"

definition ReferenceError :: "string \<Rightarrow> jsval" where
  "ReferenceError name = Err [(''name'', Str ''ReferenceError''), (''message'', Str (name @ '' is not defined''))]"

text \<open>
  \<^verbatim>\<open>if (token && config.headers) config.headers.Authorization = `Bearer ${token}`\<close>,
  for a token that is a string or \<^verbatim>\<open>null\<close>.
\<close>

definition attach_bearer :: "jsval \<Rightarrow> jsval \<Rightarrow> jsval" where
  "attach_bearer tok config =
     (case tok of
        Str t \<Rightarrow>
          if truthy tok \<and> truthy (get_prop config ''headers'')
          then set_prop config ''headers''
                 (set_prop (get_prop config ''headers'') ''Authorization'' (Str (''Bearer '' @ t)))
          else config
      | _ \<Rightarrow> config)"

section \<open>The HTTP client of the endpoint layer (class ApiService, exported as apiService)\<close>

text \<open>
  \<^verbatim>\<open>services/endpoints/auth.ts\<close> imports the named export \<^verbatim>\<open>apiService\<close> from
  \<^verbatim>\<open>../api\<close>; of the two classes called \<^verbatim>\<open>ApiService\<close> only this one has that export.
\<close>

definition ApiService_default_headers :: "(string \<times> jsval) list" where
  "ApiService_default_headers = [(''Content-Type'', Str ''application/json'')]"

definition ApiService_request_fulfilled :: handler where
  "ApiService_request_fulfilled config w =
     (case window w of
        None \<Rightarrow> (Rejected (ReferenceError ''localStorage''), w)
      | Some b \<Rightarrow> (Fulfilled (attach_bearer (getItem b ''token'') config), w))"

definition ApiService_request_rejected :: handler where
  "ApiService_request_rejected err w =
     (Rejected (Obj [(''success'', Bool False),
                     (''error'', Obj [(''message'', get_prop err ''message''), (''details'', err)])]),
      toast ''error'' (js_or (get_prop err ''message'') (Str ''Request failed'')) w)"

definition ApiService_response_fulfilled :: handler where
  "ApiService_response_fulfilled response w =
     (Fulfilled (object_with (spread response)
                   [(''data'', Obj [(''success'', Bool True), (''data'', get_prop response ''data'')])]),
      if truthy (get_prop (get_prop response ''data'') ''message'')
      then toast ''success'' (get_prop (get_prop response ''data'') ''message'') w
      else w)"

definition ApiService_response_rejected :: handler where
  "ApiService_response_rejected err w =
     (let status = get_prop (get_prop err ''response'') ''status'';
          body = get_prop (get_prop err ''response'') ''data'';
          rejection = Obj [(''success'', Bool False),
                           (''error'',
                            Obj [(''message'', js_or (js_or (get_prop body ''detail'') (get_prop body ''message''))
                                                  (get_prop err ''message'')),
                                 (''status'', status),
                                 (''data'', body)])]
      in if status = Num 401 then
           (case window w of
              None \<Rightarrow> (Rejected (ReferenceError ''localStorage''), w)
            | Some b \<Rightarrow>
                (Rejected rejection,
                 toast ''error'' (Str ''Session expired. Please login again.'')
                   (w\<lparr>window := Some (b\<lparr>localStorage := (localStorage b)(''token'' := None),
                                         location_href := ''/login''\<rparr>)\<rparr>)))
         else
           (Rejected rejection,
            toast ''error''
              (js_or (js_or (js_or (get_prop body ''detail'') (get_prop body ''message''))
                        (get_prop err ''message''))
                 (Str ''Something went wrong. Please try again.'')) w))"

definition ApiService_api :: "network \<Rightarrow> handler" where
  "ApiService_api net config w =
     axios_request ApiService_request_fulfilled ApiService_request_rejected
       ApiService_response_fulfilled ApiService_response_rejected net
       (axios_defaults ApiService_default_headers config) w"

text \<open>
  Each method is \<^verbatim>\<open>try { const response = await this.api.M(..); return response.data }
  catch (error) { return error }\<close>.
\<close>

definition ApiService_return :: "promise \<times> world \<Rightarrow> promise \<times> world" where
  "ApiService_return p =
     promise_then p (\<lambda>response w. (Fulfilled (get_prop response ''data''), w))
                    (\<lambda>err w. (Fulfilled err, w))"

definition ApiService_get :: "network \<Rightarrow> jsval \<Rightarrow> jsval \<Rightarrow> world \<Rightarrow> promise \<times> world" where
  "ApiService_get net u config w =
     ApiService_return
       (ApiService_api net
          (object_with (spread config)
             [(''method'', Str ''get''), (''url'', u), (''data'', get_prop config ''data'')]) w)"

definition ApiService_post :: "network \<Rightarrow> jsval \<Rightarrow> jsval \<Rightarrow> jsval \<Rightarrow> world \<Rightarrow> promise \<times> world" where
  "ApiService_post net u body config w =
     ApiService_return
       (ApiService_api net
          (object_with (spread config) [(''method'', Str ''post''), (''url'', u), (''data'', body)]) w)"

definition ApiService_put :: "network \<Rightarrow> jsval \<Rightarrow> jsval \<Rightarrow> jsval \<Rightarrow> world \<Rightarrow> promise \<times> world" where
  "ApiService_put net u body config w =
     ApiService_return
       (ApiService_api net
          (object_with (spread config) [(''method'', Str ''put''), (''url'', u), (''data'', body)]) w)"

definition ApiService_delete :: "network \<Rightarrow> jsval \<Rightarrow> jsval \<Rightarrow> world \<Rightarrow> promise \<times> world" where
  "ApiService_delete net u config w =
     ApiService_return
       (ApiService_api net
          (object_with (spread config)
             [(''method'', Str ''delete''), (''url'', u), (''data'', get_prop config ''data'')]) w)"

text \<open>
  The request methods of the instance by name, each applied to the list of its arguments
  (a missing argument is \<^verbatim>\<open>undefined\<close>). \<^verbatim>\<open>setBaseUrl\<close>, which sends nothing, is
  left out.
\<close>

definition ApiService_methods :: "network \<Rightarrow> string \<rightharpoonup> (jsval list \<Rightarrow> world \<Rightarrow> promise \<times> world)" where
  "ApiService_methods net =
     [''get'' \<mapsto> (\<lambda>args. ApiService_get net (arg args 0) (arg args 1)),
      ''post'' \<mapsto> (\<lambda>args. ApiService_post net (arg args 0) (arg args 1) (arg args 2)),
      ''put'' \<mapsto> (\<lambda>args. ApiService_put net (arg args 0) (arg args 1) (arg args 2)),
      ''delete'' \<mapsto> (\<lambda>args. ApiService_delete net (arg args 0) (arg args 1))]"

section \<open>The second HTTP client (the other class ApiService, exported by default)\<close>

definition ApiService2_default_headers :: "(string \<times> jsval) list" where
  "ApiService2_default_headers =
     [(''Content-Type'', Str ''application/json''), (''Accept'', Str ''application/json'')]"

definition ApiService2_request_fulfilled :: handler where
  "ApiService2_request_fulfilled config w =
     (Fulfilled (attach_bearer (case window w of None \<Rightarrow> Null | Some b \<Rightarrow> getItem b ''auth_token'')
                   config), w)"

definition ApiService2_request_rejected :: handler where
  "ApiService2_request_rejected err w = (Rejected err, w)"

definition ApiService2_response_fulfilled :: handler where
  "ApiService2_response_fulfilled response w = (Fulfilled response, w)"

definition ApiService2_response_rejected :: handler where
  "ApiService2_response_rejected err w =
     (Rejected err,
      if get_prop (get_prop err ''response'') ''status'' = Num 401 then
        (case window w of
           None \<Rightarrow> w
         | Some b \<Rightarrow> w\<lparr>window := Some (b\<lparr>localStorage := (localStorage b)(''auth_token'' := None),
                                           location_href := ''/auth/login''\<rparr>)\<rparr>)
      else w)"

definition ApiService2_api :: "network \<Rightarrow> handler" where
  "ApiService2_api net config w =
     axios_request ApiService2_request_fulfilled ApiService2_request_rejected
       ApiService2_response_fulfilled ApiService2_response_rejected net
       (axios_defaults ApiService2_default_headers config) w"

text \<open>\<^verbatim>\<open>error instanceof Error\<close>.\<close>

fun instanceof_Error :: "jsval \<Rightarrow> bool" where
  "instanceof_Error (Err kvs) = True"
| "instanceof_Error v = False"

definition ApiService2_request :: "network \<Rightarrow> jsval \<Rightarrow> world \<Rightarrow> promise \<times> world" where
  "ApiService2_request net config w =
     promise_then (ApiService2_api net config w)
       (\<lambda>response w'.
          (Fulfilled (Obj [(''data'', get_prop response ''data''),
                           (''status'', get_prop response ''status''),
                           (''statusText'', get_prop response ''statusText''),
                           (''headers'', get_prop response ''headers''),
                           (''success'', Bool True)]), w'))
       (\<lambda>err w'.
          (Fulfilled
             (if get_prop err ''isAxiosError'' = Bool True \<and> truthy (get_prop err ''response'') then
                Obj [(''success'', Bool False),
                     (''status'', get_prop (get_prop err ''response'') ''status''),
                     (''statusText'', get_prop (get_prop err ''response'') ''statusText''),
                     (''error'', get_prop (get_prop err ''response'') ''data''),
                     (''headers'', get_prop (get_prop err ''response'') ''headers'')]
              else
                Obj [(''success'', Bool False),
                     (''error'',
                      Obj [(''message'', if instanceof_Error err then get_prop err ''message''
                                         else Str ''Unknown error occurred''),
                           (''code'', Str ''UNKNOWN_ERROR'')])]), w'))"

definition ApiService2_get :: "network \<Rightarrow> jsval \<Rightarrow> jsval \<Rightarrow> world \<Rightarrow> promise \<times> world" where
  "ApiService2_get net u config w =
     ApiService2_request net (object_with (spread config) [(''method'', Str ''GET''), (''url'', u)]) w"

definition ApiService2_post :: "network \<Rightarrow> jsval \<Rightarrow> jsval \<Rightarrow> jsval \<Rightarrow> world \<Rightarrow> promise \<times> world" where
  "ApiService2_post net u body config w =
     ApiService2_request net
       (object_with (spread config) [(''method'', Str ''POST''), (''url'', u), (''data'', body)]) w"

definition ApiService2_put :: "network \<Rightarrow> jsval \<Rightarrow> jsval \<Rightarrow> jsval \<Rightarrow> world \<Rightarrow> promise \<times> world" where
  "ApiService2_put net u body config w =
     ApiService2_request net
       (object_with (spread config) [(''method'', Str ''PUT''), (''url'', u), (''data'', body)]) w"

definition ApiService2_patch :: "network \<Rightarrow> jsval \<Rightarrow> jsval \<Rightarrow> jsval \<Rightarrow> world \<Rightarrow> promise \<times> world" where
  "ApiService2_patch net u body config w =
     ApiService2_request net
       (object_with (spread config) [(''method'', Str ''PATCH''), (''url'', u), (''data'', body)]) w"

definition ApiService2_delete :: "network \<Rightarrow> jsval \<Rightarrow> jsval \<Rightarrow> world \<Rightarrow> promise \<times> world" where
  "ApiService2_delete net u config w =
     ApiService2_request net (object_with (spread config) [(''method'', Str ''DELETE''), (''url'', u)]) w"

definition ApiService2_methods :: "network \<Rightarrow> string \<rightharpoonup> (jsval list \<Rightarrow> world \<Rightarrow> promise \<times> world)" where
  "ApiService2_methods net =
     [''request'' \<mapsto> (\<lambda>args. ApiService2_request net (arg args 0)),
      ''get'' \<mapsto> (\<lambda>args. ApiService2_get net (arg args 0) (arg args 1)),
      ''post'' \<mapsto> (\<lambda>args. ApiService2_post net (arg args 0) (arg args 1) (arg args 2)),
      ''put'' \<mapsto> (\<lambda>args. ApiService2_put net (arg args 0) (arg args 1) (arg args 2)),
      ''patch'' \<mapsto> (\<lambda>args. ApiService2_patch net (arg args 0) (arg args 1) (arg args 2)),
      ''delete'' \<mapsto> (\<lambda>args. ApiService2_delete net (arg args 0) (arg args 1))]"

section \<open>The result shapes as the specification words them\<close>

text \<open>
  The specification names two shapes for what a client method returns:
  \<^verbatim>\<open>{success: true, data, status, headers}\<close> and
  \<^verbatim>\<open>{success: false, error: {message, code?, status?}}\<close>. These two predicates follow
  that wording, to be compared with what the code returns.
\<close>

definition spec_success_shape :: "jsval \<Rightarrow> bool" where
  "spec_success_shape v =
     (get_prop v ''success'' = Bool True
      \<and> set (own_keys v) \<subseteq> set [''success'', ''data'', ''status'', ''headers'']
      \<and> set [''success'', ''data'', ''status'', ''headers''] \<subseteq> set (own_keys v))"

definition spec_failure_shape :: "jsval \<Rightarrow> bool" where
  "spec_failure_shape v =
     (get_prop v ''success'' = Bool False
      \<and> set (own_keys v) \<subseteq> set [''success'', ''error'']
      \<and> set [''success'', ''error''] \<subseteq> set (own_keys v)
      \<and> ''message'' \<in> set (own_keys (get_prop v ''error''))
      \<and> set (own_keys (get_prop v ''error'')) \<subseteq> set [''message'', ''code'', ''status''])"

section \<open>Properties of the auth slice\<close>

lemma dispatch_all_snoc:
  "dispatch_all (as @ [a]) sw = authReducer a (dispatch_all as sw)"
  by (induction as arbitrary: sw) simp_all

lemma authReducer_authenticated:
  "isAuthenticated (fst (authReducer a sw)) =
     (case a of SetCredentials p \<Rightarrow> True | Logout \<Rightarrow> False | _ \<Rightarrow> isAuthenticated (fst sw))"
  by (cases a; cases sw)
     (simp_all add: setCredentials_def setUser_def setLoading_def setError_def logout_def
        Let_def split: option.splits)

text \<open>
  C6. From any slice state, \<^verbatim>\<open>setCredentials({token: T, user: U})\<close> gives a state
  with \<open>token = T\<close>, \<open>user = U\<close>, \<open>isAuthenticated = true\<close> and \<open>error = null\<close>;
  in a browser (the reducer writes only where \<^verbatim>\<open>window\<close> is defined, and only there
  is there a durable storage) \<^verbatim>\<open>localStorage\<close> afterwards holds \<open>T\<close> under the
  key \<^verbatim>\<open>auth_token\<close>, whatever it held before.
\<close>

theorem setCredentials_sets_state_and_storage:
  "token (fst (setCredentials \<lparr>resp_token = T, resp_user = U\<rparr> (s, w))) = Some T
   \<and> user (fst (setCredentials \<lparr>resp_token = T, resp_user = U\<rparr> (s, w))) = Some U
   \<and> isAuthenticated (fst (setCredentials \<lparr>resp_token = T, resp_user = U\<rparr> (s, w)))
   \<and> error (fst (setCredentials \<lparr>resp_token = T, resp_user = U\<rparr> (s, w))) = None
   \<and> (\<exists>b'. window (snd (setCredentials \<lparr>resp_token = T, resp_user = U\<rparr>
                              (s, \<lparr>window = Some b, toasts = ts\<rparr>))) = Some b'
            \<and> localStorage b' ''auth_token'' = Some T)"
  by (simp add: setCredentials_def Let_def split: option.splits)

text \<open>
  The trace argument behind C7: a state that is authenticated after a run that started
  unauthenticated has seen a \<^verbatim>\<open>setCredentials\<close> with no \<^verbatim>\<open>logout\<close> after it.
\<close>

lemma credentials_trace_snoc:
  assumes "\<exists>pre p post. acts = pre @ SetCredentials p # post \<and> Logout \<notin> set post"
    and "a \<noteq> Logout"
  shows "\<exists>pre p post. acts @ [a] = pre @ SetCredentials p # post \<and> Logout \<notin> set post"
proof -
  from assms(1) obtain pre p post
    where "acts = pre @ SetCredentials p # post" and "Logout \<notin> set post"
    by blast
  with assms(2)
  have "acts @ [a] = pre @ SetCredentials p # (post @ [a]) \<and> Logout \<notin> set (post @ [a])"
    by simp
  then show ?thesis by blast
qed

lemma authenticated_needs_credentials:
  "\<not> isAuthenticated (fst sw) \<Longrightarrow> isAuthenticated (fst (dispatch_all acts sw)) \<Longrightarrow>
     \<exists>pre p post. acts = pre @ SetCredentials p # post \<and> Logout \<notin> set post"
proof (induction acts rule: rev_induct)
  case Nil
  then show ?case by simp
next
  case (snoc a acts)
  have step: "isAuthenticated (fst (dispatch_all (acts @ [a]) sw)) =
      (case a of SetCredentials p \<Rightarrow> True | Logout \<Rightarrow> False
       | _ \<Rightarrow> isAuthenticated (fst (dispatch_all acts sw)))"
    by (simp only: dispatch_all_snoc authReducer_authenticated)
  show ?case
  proof (cases "\<exists>p. a = SetCredentials p")
    case True
    then obtain p where "a = SetCredentials p" by blast
    then have "acts @ [a] = acts @ SetCredentials p # [] \<and> Logout \<notin> set []" by simp
    then show ?thesis by blast
  next
    case False
    with snoc.prems(2) step have "a \<noteq> Logout" and "isAuthenticated (fst (dispatch_all acts sw))"
      by (cases a; simp)+
    with snoc.IH snoc.prems(1) show ?thesis
      by (intro credentials_trace_snoc) simp_all
  qed
qed

text \<open>
  C7. In every slice state reached from the initial state by the slice's actions,
  \<open>isAuthenticated\<close> holds only if the actions dispatched so far contain a
  \<^verbatim>\<open>setCredentials\<close> with no \<^verbatim>\<open>logout\<close> after it; and the initial state
  hydrated from a \<^verbatim>\<open>localStorage\<close> that holds a token has that token while
  \<open>isAuthenticated\<close> is false.
\<close>

theorem isAuthenticated_only_after_setCredentials:
  "(isAuthenticated (fst (dispatch_all acts (initialState w, w))) \<longrightarrow>
      (\<exists>pre p post. acts = pre @ SetCredentials p # post \<and> Logout \<notin> set post))
   \<and> token (initialState \<lparr>window = Some \<lparr>localStorage = [''auth_token'' \<mapsto> T], location_href = h\<rparr>,
                           toasts = ts\<rparr>) = Some T
   \<and> \<not> isAuthenticated (initialState \<lparr>window = Some \<lparr>localStorage = [''auth_token'' \<mapsto> T], location_href = h\<rparr>,
                           toasts = ts\<rparr>)"
proof -
  have "\<not> isAuthenticated (fst (initialState w, w))" by (simp add: initialState_def)
  then show ?thesis
    using authenticated_needs_credentials [of "(initialState w, w)" acts]
    by (simp add: initialState_def)
qed

text \<open>The theorem at a run that sets credentials between two changes of the loading flag.\<close>

theorem isAuthenticated_only_after_setCredentials_witness:
  "isAuthenticated (fst (dispatch_all
      [SetLoading True,
       SetCredentials \<lparr>resp_token = ''T'',
          resp_user = \<lparr>user_id = ''1'', user_email = ''a@b.c'', user_name = ''Ann'', user_role = ''user'',
                       createdAt = None, updatedAt = None\<rparr>\<rparr>,
       SetLoading False]
      (initialState \<lparr>window = None, toasts = []\<rparr>, \<lparr>window = None, toasts = []\<rparr>)))
   \<and> (\<exists>pre p post.
        [SetLoading True,
         SetCredentials \<lparr>resp_token = ''T'',
            resp_user = \<lparr>user_id = ''1'', user_email = ''a@b.c'', user_name = ''Ann'', user_role = ''user'',
                         createdAt = None, updatedAt = None\<rparr>\<rparr>,
         SetLoading False] = pre @ SetCredentials p # post \<and> Logout \<notin> set post)"
proof -
  have a: "isAuthenticated (fst (dispatch_all
      [SetLoading True,
       SetCredentials \<lparr>resp_token = ''T'',
          resp_user = \<lparr>user_id = ''1'', user_email = ''a@b.c'', user_name = ''Ann'', user_role = ''user'',
                       createdAt = None, updatedAt = None\<rparr>\<rparr>,
       SetLoading False]
      (initialState \<lparr>window = None, toasts = []\<rparr>, \<lparr>window = None, toasts = []\<rparr>)))"
    by (simp add: setLoading_def setCredentials_def)
  from a show ?thesis
    using isAuthenticated_only_after_setCredentials [of
      "[SetLoading True,
       SetCredentials \<lparr>resp_token = ''T'',
          resp_user = \<lparr>user_id = ''1'', user_email = ''a@b.c'', user_name = ''Ann'', user_role = ''user'',
                       createdAt = None, updatedAt = None\<rparr>\<rparr>,
       SetLoading False]" "\<lparr>window = None, toasts = []\<rparr>"]
    by blast
qed

text \<open>
  C8. After \<^verbatim>\<open>setCredentials(a)\<close>, \<^verbatim>\<open>setUser(newProfile)\<close> leaves \<open>token\<close> and
  \<open>isAuthenticated\<close> as \<^verbatim>\<open>setCredentials\<close> set them and makes \<open>user\<close> the new
  profile; it does not touch the world either.
\<close>

theorem setUser_after_setCredentials:
  "token (fst (setUser p (setCredentials a sw))) = token (fst (setCredentials a sw))
   \<and> isAuthenticated (fst (setUser p (setCredentials a sw))) = isAuthenticated (fst (setCredentials a sw))
   \<and> user (fst (setUser p (setCredentials a sw))) = Some p
   \<and> snd (setUser p (setCredentials a sw)) = snd (setCredentials a sw)"
  by (cases "setCredentials a sw") (simp add: setUser_def)

text \<open>
  C10. \<^verbatim>\<open>setLoading(b)\<close> changes only the \<open>loading\<close> field and
  \<^verbatim>\<open>setError(m)\<close> only the \<open>error\<close> field: \<open>token\<close>, \<open>user\<close> and
  \<open>isAuthenticated\<close> stay, and the world, \<^verbatim>\<open>localStorage\<close> included, is returned
  as it was.
\<close>

theorem setLoading_setError_frame:
  "fst (setLoading b (s, w)) = s\<lparr>loading := b\<rparr>
   \<and> snd (setLoading b (s, w)) = w
   \<and> fst (setError m (s, w)) = s\<lparr>error := Some m\<rparr>
   \<and> snd (setError m (s, w)) = w
   \<and> token (fst (setLoading b (s, w))) = token s
   \<and> user (fst (setLoading b (s, w))) = user s
   \<and> isAuthenticated (fst (setLoading b (s, w))) = isAuthenticated s
   \<and> token (fst (setError m (s, w))) = token s
   \<and> user (fst (setError m (s, w))) = user s
   \<and> isAuthenticated (fst (setError m (s, w))) = isAuthenticated s"
  by (simp add: setLoading_def setError_def)

section \<open>Properties of the route guard\<close>

lemma encodeURI_unescaped: "list_all uri_unescaped s \<Longrightarrow> encodeURI s = s"
  by (induction s) (simp_all add: encodeURI_def)

text \<open>
  A protected path with a percent sign in it, requested with no cookie: the callback
  parameter is the \<^verbatim>\<open>encodeURI\<close> of the requested URL, in which the percent sign is
  escaped once more, and so is not the requested URL.
\<close>

theorem guard_protected_counterexample:
  "isProtectedPath ''/profile/a%20b''
   \<and> request_url \<lparr>origin = ''http://localhost:3000'', pathname = ''/profile/a%20b'', search = [],
                   cookies = Map.empty\<rparr> = ''http://localhost:3000/profile/a%20b''
   \<and> middleware \<lparr>origin = ''http://localhost:3000'', pathname = ''/profile/a%20b'', search = [],
                  cookies = Map.empty\<rparr> =
       Redirect \<lparr>url_origin = ''http://localhost:3000'', url_pathname = ''/auth/login'',
                 searchParams = [(''callbackUrl'', ''http://localhost:3000/profile/a%2520b'')]\<rparr>"
  by (simp add: middleware_def isProtectedPath_def protectedPaths_def startsWith_def request_url_def
      cookie_truthy_def new_URL_def encodeURI_def uri_unescaped_def percent_encode_def hex_digit_def)

text \<open>
  C4, as the guard has it. For every request whose path is in the protected set (exact, or
  below a protected path) and that carries no session cookie, the guard redirects to
  \<^verbatim>\<open>/auth/login\<close> on the request's origin, with the single query parameter
  \<^verbatim>\<open>callbackUrl\<close> set to \<^verbatim>\<open>encodeURI\<close> of the requested URL; that is the requested
  URL itself whenever the URL holds only characters that \<^verbatim>\<open>encodeURI\<close> leaves alone.
\<close>

theorem guard_protected_redirects_to_login:
  assumes "isProtectedPath (pathname r)" and "cookies r ''auth_token'' = None"
  shows "middleware r =
           Redirect \<lparr>url_origin = origin r, url_pathname = ''/auth/login'',
                     searchParams = [(''callbackUrl'', encodeURI (request_url r))]\<rparr>
         \<and> (list_all uri_unescaped (request_url r) \<longrightarrow>
              searchParams_get \<lparr>url_origin = origin r, url_pathname = ''/auth/login'',
                     searchParams = [(''callbackUrl'', encodeURI (request_url r))]\<rparr> ''callbackUrl''
                = Some (request_url r))"
  using assms
  by (simp add: middleware_def cookie_truthy_def new_URL_def searchParams_get_def encodeURI_unescaped)

text \<open>The theorem at \<^verbatim>\<open>/profile/edit?tab=1\<close>, requested without cookies.\<close>

theorem guard_protected_redirects_to_login_witness:
  "isProtectedPath ''/profile/edit''
   \<and> middleware \<lparr>origin = ''http://localhost:3000'', pathname = ''/profile/edit'', search = ''?tab=1'',
                  cookies = Map.empty\<rparr> =
       Redirect \<lparr>url_origin = ''http://localhost:3000'', url_pathname = ''/auth/login'',
                 searchParams = [(''callbackUrl'', ''http://localhost:3000/profile/edit?tab=1'')]\<rparr>"
proof -
  have p: "isProtectedPath (pathname \<lparr>origin = ''http://localhost:3000'', pathname = ''/profile/edit'',
             search = ''?tab=1'', cookies = Map.empty\<rparr>)"
    by (simp add: isProtectedPath_def protectedPaths_def startsWith_def)
  have c: "cookies \<lparr>origin = ''http://localhost:3000'', pathname = ''/profile/edit'',
             search = ''?tab=1'', cookies = Map.empty\<rparr> ''auth_token'' = None"
    by simp
  have u: "list_all uri_unescaped (request_url \<lparr>origin = ''http://localhost:3000'', pathname = ''/profile/edit'',
             search = ''?tab=1'', cookies = Map.empty\<rparr>)"
    by (simp add: request_url_def uri_unescaped_def)
  have e: "request_url \<lparr>origin = ''http://localhost:3000'', pathname = ''/profile/edit'',
             search = ''?tab=1'', cookies = Map.empty\<rparr> = ''http://localhost:3000/profile/edit?tab=1''"
    by (simp add: request_url_def)
  from guard_protected_redirects_to_login [OF p c] u e p show ?thesis
    by (simp add: searchParams_get_def)
qed

text \<open>
  A login request that carries the session cookie with an empty value: the cookie is
  present, its value is falsy, and the guard lets the request through.
\<close>

theorem guard_auth_counterexample:
  "isAuthPath ''/auth/login''
   \<and> cookies \<lparr>origin = ''http://localhost:3000'', pathname = ''/auth/login'', search = [],
               cookies = [''auth_token'' \<mapsto> []]\<rparr> ''auth_token'' = Some []
   \<and> middleware \<lparr>origin = ''http://localhost:3000'', pathname = ''/auth/login'', search = [],
                  cookies = [''auth_token'' \<mapsto> []]\<rparr> = Next"
  by (simp add: middleware_def isProtectedPath_def isAuthPath_def authPaths_def protectedPaths_def
      startsWith_def cookie_truthy_def)

text \<open>
  C5, as the guard has it. For every request whose path is in the auth-path set (login,
  register, forgot-password; exact or below one of them) and that carries a session cookie
  with a non-empty value, the guard redirects to \<^verbatim>\<open>/dashboard\<close> on the request's
  origin, whatever that non-empty value is.
\<close>

theorem guard_auth_redirects_to_dashboard:
  assumes "isAuthPath (pathname r)" and "cookies r ''auth_token'' = Some v" and "v \<noteq> []"
  shows "middleware r = Redirect \<lparr>url_origin = origin r, url_pathname = ''/dashboard'', searchParams = []\<rparr>"
  using assms by (simp add: middleware_def cookie_truthy_def new_URL_def)

text \<open>The theorem at \<^verbatim>\<open>/auth/register\<close> with a cookie that is no real token.\<close>

theorem guard_auth_redirects_to_dashboard_witness:
  "isAuthPath ''/auth/register''
   \<and> middleware \<lparr>origin = ''http://localhost:3000'', pathname = ''/auth/register'', search = [],
                  cookies = [''auth_token'' \<mapsto> ''garbage'']\<rparr> =
       Redirect \<lparr>url_origin = ''http://localhost:3000'', url_pathname = ''/dashboard'', searchParams = []\<rparr>"
proof -
  have p: "isAuthPath (pathname \<lparr>origin = ''http://localhost:3000'', pathname = ''/auth/register'',
             search = [], cookies = [''auth_token'' \<mapsto> ''garbage'']\<rparr>)"
    by (simp add: isAuthPath_def authPaths_def startsWith_def)
  have c: "cookies \<lparr>origin = ''http://localhost:3000'', pathname = ''/auth/register'',
             search = [], cookies = [''auth_token'' \<mapsto> ''garbage'']\<rparr> ''auth_token'' = Some ''garbage''"
    by simp
  have n: "''garbage'' \<noteq> []" by simp
  from guard_auth_redirects_to_dashboard [OF p c n] p show ?thesis by simp
qed

section \<open>Properties of the HTTP clients\<close>

lemma dom_ApiService_methods:
  "dom (ApiService_methods net) = {''get'', ''post'', ''put'', ''delete''}"
  by (simp add: ApiService_methods_def insert_commute)

lemma dom_ApiService2_methods:
  "dom (ApiService2_methods net) = {''request'', ''get'', ''post'', ''put'', ''patch'', ''delete''}"
  by (simp add: ApiService2_methods_def insert_commute)

text \<open>
  C1, at one run. \<^verbatim>\<open>setCredentials\<close> stores the token \<open>T\<close> under
  \<^verbatim>\<open>auth_token\<close>. The request interceptor of the endpoint layer's client reads the key
  \<^verbatim>\<open>token\<close>, finds nothing and sends the request without an
  \<^verbatim>\<open>Authorization\<close> header; the interceptor of the second client reads
  \<^verbatim>\<open>auth_token\<close> and attaches \<^verbatim>\<open>Bearer T\<close>.
\<close>

theorem stored_token_not_attached:
  "window (snd (setCredentials
        \<lparr>resp_token = ''T'',
           resp_user = \<lparr>user_id = ''1'', user_email = ''a@b.c'', user_name = ''Ann'', user_role = ''user'',
                        createdAt = None, updatedAt = None\<rparr>\<rparr>
        (s, \<lparr>window = Some \<lparr>localStorage = Map.empty, location_href = ''/auth/login''\<rparr>, toasts = []\<rparr>)))
     = Some \<lparr>localStorage = [''auth_token'' \<mapsto> ''T''], location_href = ''/auth/login''\<rparr>
   \<and> fst (ApiService_request_fulfilled
        (Obj [(''url'', Str ''auth/me''), (''headers'', Obj [(''Content-Type'', Str ''application/json'')])])
        \<lparr>window = Some \<lparr>localStorage = [''auth_token'' \<mapsto> ''T''], location_href = ''/auth/login''\<rparr>,
           toasts = []\<rparr>)
     = Fulfilled (Obj [(''url'', Str ''auth/me''),
                       (''headers'', Obj [(''Content-Type'', Str ''application/json'')])])
   \<and> fst (ApiService2_request_fulfilled
        (Obj [(''url'', Str ''auth/me''), (''headers'', Obj [(''Content-Type'', Str ''application/json'')])])
        \<lparr>window = Some \<lparr>localStorage = [''auth_token'' \<mapsto> ''T''], location_href = ''/auth/login''\<rparr>,
           toasts = []\<rparr>)
     = Fulfilled (Obj [(''url'', Str ''auth/me''),
                       (''headers'', Obj [(''Content-Type'', Str ''application/json''),
                                          (''Authorization'', Str ''Bearer T'')])])"
  by (simp add: setCredentials_def ApiService_request_fulfilled_def ApiService2_request_fulfilled_def
      attach_bearer_def getItem_def)

text \<open>
  C2, at one run. With \<open>T\<close> stored under \<^verbatim>\<open>auth_token\<close>, a reply of status 401 to
  \<^verbatim>\<open>get\<close> of the endpoint layer's client returns the failure object, but leaves
  \<open>T\<close> in \<^verbatim>\<open>localStorage\<close> (the key removed is \<^verbatim>\<open>token\<close>) and navigates to
  \<^verbatim>\<open>/login\<close>, which is not the login path \<^verbatim>\<open>/auth/login\<close> of the route guard.
  The second client, on the same input, removes the token and navigates to
  \<^verbatim>\<open>/auth/login\<close>.
\<close>

theorem unauthorized_keeps_stored_token:
  "fst (ApiService_get (\<lambda>c. HttpReply 401 ''Unauthorized'' (Obj [(''detail'', Str ''Not authenticated'')]) (Obj []))
          (Str ''auth/me'') Undefined
          \<lparr>window = Some \<lparr>localStorage = [''auth_token'' \<mapsto> ''T''], location_href = ''/dashboard''\<rparr>,
             toasts = []\<rparr>)
     = Fulfilled (Obj [(''success'', Bool False),
                       (''error'', Obj [(''message'', Str ''Not authenticated''), (''status'', Num 401),
                                        (''data'', Obj [(''detail'', Str ''Not authenticated'')])])])
   \<and> map_option (\<lambda>b. (localStorage b ''auth_token'', location_href b))
        (window (snd (ApiService_get
          (\<lambda>c. HttpReply 401 ''Unauthorized'' (Obj [(''detail'', Str ''Not authenticated'')]) (Obj []))
          (Str ''auth/me'') Undefined
          \<lparr>window = Some \<lparr>localStorage = [''auth_token'' \<mapsto> ''T''], location_href = ''/dashboard''\<rparr>,
             toasts = []\<rparr>)))
     = Some (Some ''T'', ''/login'')
   \<and> map_option (\<lambda>b. (localStorage b ''auth_token'', location_href b))
        (window (snd (ApiService2_get
          (\<lambda>c. HttpReply 401 ''Unauthorized'' (Obj [(''detail'', Str ''Not authenticated'')]) (Obj []))
          (Str ''auth/me'') Undefined
          \<lparr>window = Some \<lparr>localStorage = [''auth_token'' \<mapsto> ''T''], location_href = ''/dashboard''\<rparr>,
             toasts = []\<rparr>)))
     = Some (None, ''/auth/login'')"
  by (simp add: ApiService_get_def ApiService_return_def ApiService_api_def
        axios_request_def ApiService_request_fulfilled_def dispatchRequest_def pass_rejected_def
        ApiService_response_rejected_def js_or_def Let_def toast_def
        ApiService2_get_def ApiService2_request_def ApiService2_api_def
        ApiService2_request_fulfilled_def ApiService2_response_rejected_def)

text \<open>
  What the second client does on every 401 in a browser: the stored token is removed, the
  page navigates to the login path, and the failure object is returned.
\<close>

lemma ApiService2_unauthorized:
  assumes "\<And>c. net c = HttpReply 401 statusText body headers" and "window w = Some b"
  shows "ApiService2_request net config w =
           (Fulfilled (Obj [(''success'', Bool False), (''status'', Num 401),
                            (''statusText'', Str statusText), (''error'', body), (''headers'', headers)]),
            w\<lparr>window := Some (b\<lparr>localStorage := (localStorage b)(''auth_token'' := None),
                                 location_href := ''/auth/login''\<rparr>)\<rparr>)"
  using assms
  by (simp add: ApiService2_request_def ApiService2_api_def axios_request_def
        ApiService2_request_fulfilled_def dispatchRequest_def pass_rejected_def
        ApiService2_response_rejected_def Let_def)

text \<open>
  What a request that went through the pipeline carries: the bearer header and the default
  headers touch only \<^verbatim>\<open>headers\<close>, so the method, the address and the body are those
  the client's method put into the configuration.
\<close>

lemma map_of_set_kv_same: "map_of (set_kv k v kvs) k = Some v"
  by (induction kvs) auto

lemma map_of_set_kv_other: "k \<noteq> k' \<Longrightarrow> map_of (set_kv k' v kvs) k = map_of kvs k"
  by (induction kvs) auto

lemma get_prop_set_prop_other: "k \<noteq> k' \<Longrightarrow> get_prop (set_prop c k' v) k = get_prop c k"
  by (cases c) (simp_all add: map_of_set_kv_other)

lemma get_prop_attach_bearer: "k \<noteq> ''headers'' \<Longrightarrow> get_prop (attach_bearer t c) k = get_prop c k"
  by (simp add: attach_bearer_def get_prop_set_prop_other split: jsval.splits)

lemma get_prop_axios_defaults:
  "k \<noteq> ''headers'' \<Longrightarrow> get_prop (axios_defaults hs config) k = get_prop config k"
  by (cases config) (simp_all add: axios_defaults_def object_with_def map_of_set_kv_other)

lemma sent_config_prop:
  "k \<noteq> ''headers'' \<Longrightarrow>
     get_prop (attach_bearer t (axios_defaults hs (object_with base kvs))) k = get_prop (object_with base kvs) k"
  by (simp add: get_prop_attach_bearer) (simp add: object_with_def get_prop_axios_defaults)

lemma verb_config_props:
  "get_prop (object_with base [(''method'', m), (''url'', u), (''data'', d)]) ''method'' = m"
  "get_prop (object_with base [(''method'', m), (''url'', u), (''data'', d)]) ''url'' = u"
  "get_prop (object_with base [(''method'', m), (''url'', u), (''data'', d)]) ''data'' = d"
  "get_prop (object_with base [(''method'', m), (''url'', u)]) ''method'' = m"
  "get_prop (object_with base [(''method'', m), (''url'', u)]) ''url'' = u"
  "get_prop (object_with (spread options) [(''method'', m), (''url'', u)]) ''data'' = get_prop options ''data''"
  by (cases options; simp add: object_with_def map_of_set_kv_same map_of_set_kv_other)+

text \<open>
  What a client returns for each behaviour of the network on the request it sent.
\<close>

lemma ApiService_return_outcome:
  "fst (ApiService_return (ApiService_api net config w)) =
     Fulfilled
       (case window w of
          None \<Rightarrow>
            Obj [(''success'', Bool False),
                 (''error'', Obj [(''message'', Str ''localStorage is not defined''),
                                  (''status'', Undefined), (''data'', Undefined)])]
        | Some b \<Rightarrow>
            (case net (attach_bearer (getItem b ''token'') (axios_defaults ApiService_default_headers config)) of
               HttpReply status statusText body headers \<Rightarrow>
                 if 200 \<le> status \<and> status < 300 then Obj [(''success'', Bool True), (''data'', body)]
                 else Obj [(''success'', Bool False),
                           (''error'',
                            Obj [(''message'',
                                  js_or (js_or (get_prop body ''detail'') (get_prop body ''message''))
                                    (Str (''Request failed with status code '' @ show_nat status))),
                                 (''status'', Num (int status)), (''data'', body)])]
             | NoReply msg \<Rightarrow>
                 Obj [(''success'', Bool False),
                      (''error'', Obj [(''message'', Str msg), (''status'', Undefined),
                                       (''data'', Undefined)])]))"
proof (cases "window w")
  case None
  then show ?thesis
    by (simp add: ApiService_api_def axios_request_def ApiService_request_fulfilled_def
        pass_rejected_def ApiService_response_rejected_def ReferenceError_def ApiService_return_def
        js_or_def)
next
  case (Some b)
  show ?thesis
  proof (cases "net (attach_bearer (getItem b ''token'') (axios_defaults ApiService_default_headers config))")
    case (HttpReply status statusText body headers)
    with Some show ?thesis
      by (simp add: ApiService_api_def axios_request_def ApiService_request_fulfilled_def
          dispatchRequest_def pass_rejected_def ApiService_response_rejected_def
          ApiService_response_fulfilled_def object_with_def Let_def ApiService_return_def)
  next
    case (NoReply msg)
    with Some show ?thesis
      by (simp add: ApiService_api_def axios_request_def ApiService_request_fulfilled_def
          dispatchRequest_def pass_rejected_def ApiService_response_rejected_def Let_def
          ApiService_return_def js_or_def)
  qed
qed

lemma ApiService2_request_outcome:
  "fst (ApiService2_request net config w) =
     Fulfilled
       (case net (attach_bearer (case window w of None \<Rightarrow> Null | Some b \<Rightarrow> getItem b ''auth_token'')
                    (axios_defaults ApiService2_default_headers config)) of
          HttpReply status statusText body headers \<Rightarrow>
            if 200 \<le> status \<and> status < 300
            then Obj [(''data'', body), (''status'', Num (int status)), (''statusText'', Str statusText),
                      (''headers'', headers), (''success'', Bool True)]
            else Obj [(''success'', Bool False), (''status'', Num (int status)),
                      (''statusText'', Str statusText), (''error'', body), (''headers'', headers)]
        | NoReply msg \<Rightarrow>
            Obj [(''success'', Bool False),
                 (''error'', Obj [(''message'', Str msg), (''code'', Str ''UNKNOWN_ERROR'')])])"
proof (cases "net (attach_bearer (case window w of None \<Rightarrow> Null | Some b \<Rightarrow> getItem b ''auth_token'')
                     (axios_defaults ApiService2_default_headers config))")
  case (HttpReply status statusText body headers)
  then show ?thesis
    by (simp add: ApiService2_request_def ApiService2_api_def axios_request_def
        ApiService2_request_fulfilled_def dispatchRequest_def pass_rejected_def
        ApiService2_response_rejected_def ApiService2_response_fulfilled_def Let_def)
next
  case (NoReply msg)
  then show ?thesis
    by (simp add: ApiService2_request_def ApiService2_api_def axios_request_def
        ApiService2_request_fulfilled_def dispatchRequest_def pass_rejected_def
        ApiService2_response_rejected_def Let_def)
qed

lemma ApiService_method_outcome:
  assumes "name \<in> dom (ApiService_methods net)"
  shows "\<exists>c. get_prop c ''method'' = Str name
           \<and> get_prop c ''url'' = arg args 0
           \<and> get_prop c ''data'' =
               (if name = ''post'' \<or> name = ''put'' then arg args 1 else get_prop (arg args 1) ''data'')
           \<and> fst (the (ApiService_methods net name) args w) =
            Fulfilled
              (case window w of
                 None \<Rightarrow>
                   Obj [(''success'', Bool False),
                        (''error'', Obj [(''message'', Str ''localStorage is not defined''),
                                         (''status'', Undefined), (''data'', Undefined)])]
               | Some b \<Rightarrow>
                   (case net c of
                      HttpReply status statusText body headers \<Rightarrow>
                        if 200 \<le> status \<and> status < 300
                        then Obj [(''success'', Bool True), (''data'', body)]
                        else Obj [(''success'', Bool False),
                                  (''error'',
                                   Obj [(''message'',
                                         js_or (js_or (get_prop body ''detail'') (get_prop body ''message''))
                                           (Str (''Request failed with status code '' @ show_nat status))),
                                        (''status'', Num (int status)), (''data'', body)])]
                    | NoReply msg \<Rightarrow>
                        Obj [(''success'', Bool False),
                             (''error'', Obj [(''message'', Str msg), (''status'', Undefined),
                                              (''data'', Undefined)])]))"
proof -
  from assms have "name = ''get'' \<or> name = ''post'' \<or> name = ''put'' \<or> name = ''delete''"
    by (simp add: dom_ApiService_methods)
  then show ?thesis
  proof (elim disjE)
    assume n: "name = ''get''"
    then have eq: "the (ApiService_methods net name) args w = ApiService_get net (arg args 0) (arg args 1) w"
      by (simp add: ApiService_methods_def)
    show ?thesis
      unfolding eq ApiService_get_def ApiService_return_outcome
      by (rule exI [of _ "attach_bearer (case window w of None \<Rightarrow> Null | Some b \<Rightarrow> getItem b ''token'')
               (axios_defaults ApiService_default_headers
                  (object_with (spread (arg args 1))
                     [(''method'', Str ''get''), (''url'', arg args 0), (''data'', get_prop (arg args 1) ''data'')]))"])
         (simp add: n sent_config_prop verb_config_props split: option.splits)
  next
    assume n: "name = ''post''"
    then have eq: "the (ApiService_methods net name) args w = ApiService_post net (arg args 0) (arg args 1) (arg args 2) w"
      by (simp add: ApiService_methods_def)
    show ?thesis
      unfolding eq ApiService_post_def ApiService_return_outcome
      by (rule exI [of _ "attach_bearer (case window w of None \<Rightarrow> Null | Some b \<Rightarrow> getItem b ''token'')
               (axios_defaults ApiService_default_headers
                  (object_with (spread (arg args 2))
                     [(''method'', Str ''post''), (''url'', arg args 0), (''data'', arg args 1)]))"])
         (simp add: n sent_config_prop verb_config_props split: option.splits)
  next
    assume n: "name = ''put''"
    then have eq: "the (ApiService_methods net name) args w = ApiService_put net (arg args 0) (arg args 1) (arg args 2) w"
      by (simp add: ApiService_methods_def)
    show ?thesis
      unfolding eq ApiService_put_def ApiService_return_outcome
      by (rule exI [of _ "attach_bearer (case window w of None \<Rightarrow> Null | Some b \<Rightarrow> getItem b ''token'')
               (axios_defaults ApiService_default_headers
                  (object_with (spread (arg args 2))
                     [(''method'', Str ''put''), (''url'', arg args 0), (''data'', arg args 1)]))"])
         (simp add: n sent_config_prop verb_config_props split: option.splits)
  next
    assume n: "name = ''delete''"
    then have eq: "the (ApiService_methods net name) args w = ApiService_delete net (arg args 0) (arg args 1) w"
      by (simp add: ApiService_methods_def)
    show ?thesis
      unfolding eq ApiService_delete_def ApiService_return_outcome
      by (rule exI [of _ "attach_bearer (case window w of None \<Rightarrow> Null | Some b \<Rightarrow> getItem b ''token'')
               (axios_defaults ApiService_default_headers
                  (object_with (spread (arg args 1))
                     [(''method'', Str ''delete''), (''url'', arg args 0), (''data'', get_prop (arg args 1) ''data'')]))"])
         (simp add: n sent_config_prop verb_config_props split: option.splits)
  qed
qed

lemma ApiService2_method_outcome:
  assumes "name \<in> dom (ApiService2_methods net)"
  shows "\<exists>c. Some (get_prop c ''method'') =
               (if name = ''request'' then Some (get_prop (arg args 0) ''method'')
                else map_of [(''get'', Str ''GET''), (''post'', Str ''POST''), (''put'', Str ''PUT''),
                             (''patch'', Str ''PATCH''), (''delete'', Str ''DELETE'')] name)
           \<and> get_prop c ''url'' =
               (if name = ''request'' then get_prop (arg args 0) ''url'' else arg args 0)
           \<and> get_prop c ''data'' =
               (if name = ''request'' then get_prop (arg args 0) ''data''
                else if name = ''post'' \<or> name = ''put'' \<or> name = ''patch'' then arg args 1
                else get_prop (arg args 1) ''data'')
           \<and> fst (the (ApiService2_methods net name) args w) =
            Fulfilled
              (case net c of
                 HttpReply status statusText body headers \<Rightarrow>
                   if 200 \<le> status \<and> status < 300
                   then Obj [(''data'', body), (''status'', Num (int status)),
                             (''statusText'', Str statusText), (''headers'', headers),
                             (''success'', Bool True)]
                   else Obj [(''success'', Bool False), (''status'', Num (int status)),
                             (''statusText'', Str statusText), (''error'', body),
                             (''headers'', headers)]
               | NoReply msg \<Rightarrow>
                   Obj [(''success'', Bool False),
                        (''error'', Obj [(''message'', Str msg), (''code'', Str ''UNKNOWN_ERROR'')])])"
proof -
  from assms have "name = ''request'' \<or> name = ''get'' \<or> name = ''post'' \<or> name = ''put''
      \<or> name = ''patch'' \<or> name = ''delete''"
    by (simp add: dom_ApiService2_methods)
  then show ?thesis
  proof (elim disjE)
    assume n: "name = ''request''"
    then have eq: "the (ApiService2_methods net name) args w = ApiService2_request net (arg args 0) w"
      by (simp add: ApiService2_methods_def)
    show ?thesis
      unfolding eq ApiService2_request_outcome
      by (rule exI [of _ "attach_bearer (case window w of None \<Rightarrow> Null | Some b \<Rightarrow> getItem b ''auth_token'')
               (axios_defaults ApiService2_default_headers (arg args 0))"])
         (simp add: n get_prop_attach_bearer get_prop_axios_defaults)
  next
    assume n: "name = ''get''"
    then have eq: "the (ApiService2_methods net name) args w = ApiService2_get net (arg args 0) (arg args 1) w"
      by (simp add: ApiService2_methods_def)
    show ?thesis
      unfolding eq ApiService2_get_def ApiService2_request_outcome
      by (rule exI [of _ "attach_bearer (case window w of None \<Rightarrow> Null | Some b \<Rightarrow> getItem b ''auth_token'')
               (axios_defaults ApiService2_default_headers
                  (object_with (spread (arg args 1)) [(''method'', Str ''GET''), (''url'', arg args 0)]))"])
         (simp add: n sent_config_prop verb_config_props)
  next
    assume n: "name = ''post''"
    then have eq: "the (ApiService2_methods net name) args w = ApiService2_post net (arg args 0) (arg args 1) (arg args 2) w"
      by (simp add: ApiService2_methods_def)
    show ?thesis
      unfolding eq ApiService2_post_def ApiService2_request_outcome
      by (rule exI [of _ "attach_bearer (case window w of None \<Rightarrow> Null | Some b \<Rightarrow> getItem b ''auth_token'')
               (axios_defaults ApiService2_default_headers
                  (object_with (spread (arg args 2)) [(''method'', Str ''POST''), (''url'', arg args 0), (''data'', arg args 1)]))"])
         (simp add: n sent_config_prop verb_config_props)
  next
    assume n: "name = ''put''"
    then have eq: "the (ApiService2_methods net name) args w = ApiService2_put net (arg args 0) (arg args 1) (arg args 2) w"
      by (simp add: ApiService2_methods_def)
    show ?thesis
      unfolding eq ApiService2_put_def ApiService2_request_outcome
      by (rule exI [of _ "attach_bearer (case window w of None \<Rightarrow> Null | Some b \<Rightarrow> getItem b ''auth_token'')
               (axios_defaults ApiService2_default_headers
                  (object_with (spread (arg args 2)) [(''method'', Str ''PUT''), (''url'', arg args 0), (''data'', arg args 1)]))"])
         (simp add: n sent_config_prop verb_config_props)
  next
    assume n: "name = ''patch''"
    then have eq: "the (ApiService2_methods net name) args w = ApiService2_patch net (arg args 0) (arg args 1) (arg args 2) w"
      by (simp add: ApiService2_methods_def)
    show ?thesis
      unfolding eq ApiService2_patch_def ApiService2_request_outcome
      by (rule exI [of _ "attach_bearer (case window w of None \<Rightarrow> Null | Some b \<Rightarrow> getItem b ''auth_token'')
               (axios_defaults ApiService2_default_headers
                  (object_with (spread (arg args 2)) [(''method'', Str ''PATCH''), (''url'', arg args 0), (''data'', arg args 1)]))"])
         (simp add: n sent_config_prop verb_config_props)
  next
    assume n: "name = ''delete''"
    then have eq: "the (ApiService2_methods net name) args w = ApiService2_delete net (arg args 0) (arg args 1) w"
      by (simp add: ApiService2_methods_def)
    show ?thesis
      unfolding eq ApiService2_delete_def ApiService2_request_outcome
      by (rule exI [of _ "attach_bearer (case window w of None \<Rightarrow> Null | Some b \<Rightarrow> getItem b ''auth_token'')
               (axios_defaults ApiService2_default_headers
                  (object_with (spread (arg args 1)) [(''method'', Str ''DELETE''), (''url'', arg args 0)]))"])
         (simp add: n sent_config_prop verb_config_props)
  qed
qed

text \<open>
  A successful \<^verbatim>\<open>get\<close> of the endpoint layer's client returns
  \<^verbatim>\<open>{success: true, data}\<close>: it has neither \<^verbatim>\<open>status\<close> nor \<^verbatim>\<open>headers\<close>, so it
  is neither of the two shapes of the specification.
\<close>

theorem client_success_shape_counterexample:
  "fst (ApiService_get (\<lambda>c. HttpReply 200 ''OK'' (Obj [(''id'', Str ''1'')]) (Obj []))
          (Str ''auth/me'') Undefined
          \<lparr>window = Some \<lparr>localStorage = Map.empty, location_href = ''/dashboard''\<rparr>, toasts = []\<rparr>)
     = Fulfilled (Obj [(''success'', Bool True), (''data'', Obj [(''id'', Str ''1'')])])
   \<and> \<not> spec_success_shape (Obj [(''success'', Bool True), (''data'', Obj [(''id'', Str ''1'')])])
   \<and> \<not> spec_failure_shape (Obj [(''success'', Bool True), (''data'', Obj [(''id'', Str ''1'')])])"
  by (simp add: ApiService_get_def ApiService_return_def ApiService_api_def
        axios_request_def ApiService_request_fulfilled_def dispatchRequest_def pass_rejected_def
        ApiService_response_fulfilled_def Let_def object_with_def axios_defaults_def
        attach_bearer_def getItem_def ApiService_default_headers_def
        spec_success_shape_def spec_failure_shape_def)

text \<open>
  C3, as the clients have it. For every method of either client, every argument list,
  every world and every behaviour of the network, the call does not throw or reject: its
  promise is fulfilled with a plain object, and which object is decided by what happened
  to the request \<open>c\<close> that the method sent to the address given as its first argument.

  The client of the endpoint layer: a reply with a status from 200 to 299 gives
  \<^verbatim>\<open>{success: true, data}\<close> with the reply's body as \<^verbatim>\<open>data\<close>; a reply with any
  other status gives \<^verbatim>\<open>{success: false, error: {message, status, data}}\<close> with that
  status, the body as \<^verbatim>\<open>data\<close>, and as \<^verbatim>\<open>message\<close> the body's \<^verbatim>\<open>detail\<close>,
  else the body's \<^verbatim>\<open>message\<close>, else the text axios gives the error; no reply gives the
  same failure object with the message of the network error and \<^verbatim>\<open>undefined\<close> for
  \<^verbatim>\<open>status\<close> and \<^verbatim>\<open>data\<close>; and where there is no \<^verbatim>\<open>window\<close> the request is
  not sent and the failure object carries the message of the \<^verbatim>\<open>ReferenceError\<close>.

  The second client: a reply with a status from 200 to 299 gives
  \<^verbatim>\<open>{data, status, statusText, headers, success: true}\<close> taken from the reply; a reply
  with any other status gives \<^verbatim>\<open>{success: false, status, statusText, error, headers}\<close>
  with the reply's body as \<^verbatim>\<open>error\<close>; no reply gives
  \<^verbatim>\<open>{success: false, error: {message, code: 'UNKNOWN_ERROR'}}\<close> with the message of the
  network error.
\<close>

theorem client_results_normalized:
  "(name \<in> dom (ApiService_methods net) \<longrightarrow>
      (\<exists>c. get_prop c ''url'' = arg args 0
         \<and> fst (the (ApiService_methods net name) args w) =
            Fulfilled
              (case window w of
                 None \<Rightarrow>
                   Obj [(''success'', Bool False),
                        (''error'', Obj [(''message'', Str ''localStorage is not defined''),
                                         (''status'', Undefined), (''data'', Undefined)])]
               | Some b \<Rightarrow>
                   (case net c of
                      HttpReply status statusText body headers \<Rightarrow>
                        if 200 \<le> status \<and> status < 300
                        then Obj [(''success'', Bool True), (''data'', body)]
                        else Obj [(''success'', Bool False),
                                  (''error'',
                                   Obj [(''message'',
                                         js_or (js_or (get_prop body ''detail'') (get_prop body ''message''))
                                           (Str (''Request failed with status code '' @ show_nat status))),
                                        (''status'', Num (int status)), (''data'', body)])]
                    | NoReply msg \<Rightarrow>
                        Obj [(''success'', Bool False),
                             (''error'', Obj [(''message'', Str msg), (''status'', Undefined),
                                              (''data'', Undefined)])]))))
   \<and> (name \<in> dom (ApiService2_methods net) \<longrightarrow>
      (\<exists>c. get_prop c ''url'' =
               (if name = ''request'' then get_prop (arg args 0) ''url'' else arg args 0)
         \<and> fst (the (ApiService2_methods net name) args w) =
            Fulfilled
              (case net c of
                 HttpReply status statusText body headers \<Rightarrow>
                   if 200 \<le> status \<and> status < 300
                   then Obj [(''data'', body), (''status'', Num (int status)),
                             (''statusText'', Str statusText), (''headers'', headers),
                             (''success'', Bool True)]
                   else Obj [(''success'', Bool False), (''status'', Num (int status)),
                             (''statusText'', Str statusText), (''error'', body),
                             (''headers'', headers)]
               | NoReply msg \<Rightarrow>
                   Obj [(''success'', Bool False),
                        (''error'', Obj [(''message'', Str msg), (''code'', Str ''UNKNOWN_ERROR'')])])))"
proof (intro conjI impI)
  assume "name \<in> dom (ApiService_methods net)"
  from ApiService_method_outcome [OF this, of args w]
  show "\<exists>c. get_prop c ''url'' = arg args 0
         \<and> fst (the (ApiService_methods net name) args w) =
            Fulfilled
              (case window w of
                 None \<Rightarrow>
                   Obj [(''success'', Bool False),
                        (''error'', Obj [(''message'', Str ''localStorage is not defined''),
                                         (''status'', Undefined), (''data'', Undefined)])]
               | Some b \<Rightarrow>
                   (case net c of
                      HttpReply status statusText body headers \<Rightarrow>
                        if 200 \<le> status \<and> status < 300
                        then Obj [(''success'', Bool True), (''data'', body)]
                        else Obj [(''success'', Bool False),
                                  (''error'',
                                   Obj [(''message'',
                                         js_or (js_or (get_prop body ''detail'') (get_prop body ''message''))
                                           (Str (''Request failed with status code '' @ show_nat status))),
                                        (''status'', Num (int status)), (''data'', body)])]
                    | NoReply msg \<Rightarrow>
                        Obj [(''success'', Bool False),
                             (''error'', Obj [(''message'', Str msg), (''status'', Undefined),
                                              (''data'', Undefined)])]))"
    by (elim exE conjE) (intro exI conjI)
next
  assume "name \<in> dom (ApiService2_methods net)"
  from ApiService2_method_outcome [OF this, of args w]
  show "\<exists>c. get_prop c ''url'' =
               (if name = ''request'' then get_prop (arg args 0) ''url'' else arg args 0)
         \<and> fst (the (ApiService2_methods net name) args w) =
            Fulfilled
              (case net c of
                 HttpReply status statusText body headers \<Rightarrow>
                   if 200 \<le> status \<and> status < 300
                   then Obj [(''data'', body), (''status'', Num (int status)),
                             (''statusText'', Str statusText), (''headers'', headers),
                             (''success'', Bool True)]
                   else Obj [(''success'', Bool False), (''status'', Num (int status)),
                             (''statusText'', Str statusText), (''error'', body),
                             (''headers'', headers)]
               | NoReply msg \<Rightarrow>
                   Obj [(''success'', Bool False),
                        (''error'', Obj [(''message'', Str msg), (''code'', Str ''UNKNOWN_ERROR'')])])"
    by (elim exE conjE) (intro exI conjI)
qed

text \<open>
  The theorem at \<^verbatim>\<open>get('auth/me')\<close> on a network that does not answer: both clients
  return their failure object with the message \<^verbatim>\<open>Network Error\<close>.
\<close>

theorem client_results_normalized_witness:
  "''get'' \<in> dom (ApiService_methods (\<lambda>c. NoReply ''Network Error''))
   \<and> ''get'' \<in> dom (ApiService2_methods (\<lambda>c. NoReply ''Network Error''))
   \<and> fst (the (ApiService_methods (\<lambda>c. NoReply ''Network Error'') ''get'') [Str ''auth/me'']
            \<lparr>window = Some \<lparr>localStorage = Map.empty, location_href = ''/dashboard''\<rparr>, toasts = []\<rparr>)
       = Fulfilled (Obj [(''success'', Bool False),
                         (''error'', Obj [(''message'', Str ''Network Error''), (''status'', Undefined),
                                          (''data'', Undefined)])])
   \<and> fst (the (ApiService2_methods (\<lambda>c. NoReply ''Network Error'') ''get'') [Str ''auth/me'']
            \<lparr>window = Some \<lparr>localStorage = Map.empty, location_href = ''/dashboard''\<rparr>, toasts = []\<rparr>)
       = Fulfilled (Obj [(''success'', Bool False),
                         (''error'', Obj [(''message'', Str ''Network Error''),
                                          (''code'', Str ''UNKNOWN_ERROR'')])])"
  using client_results_normalized [of "''get''" "\<lambda>c. NoReply ''Network Error''" "[Str ''auth/me'']"
      "\<lparr>window = Some \<lparr>localStorage = Map.empty, location_href = ''/dashboard''\<rparr>, toasts = []\<rparr>"]
  by (simp add: dom_ApiService_methods dom_ApiService2_methods)

text \<open>The client that the endpoint layer imports has no method \<^verbatim>\<open>patch\<close>.\<close>

theorem endpoint_client_has_no_patch_counterexample:
  "ApiService_methods (\<lambda>c. NoReply ''Network Error'') ''patch'' = None"
  by (simp add: ApiService_methods_def)

text \<open>
  C9, as the clients have it. The client of the endpoint layer has the four request methods
  \<^verbatim>\<open>get\<close>, \<^verbatim>\<open>post\<close>, \<^verbatim>\<open>put\<close> and \<^verbatim>\<open>delete\<close>; the second client has
  these, \<^verbatim>\<open>patch\<close> and \<^verbatim>\<open>request\<close>. Every one of them sends a request \<open>c\<close>
  whose method is the method's name (in capitals in the second client) and whose address is
  the first argument. \<^verbatim>\<open>post\<close>, \<^verbatim>\<open>put\<close> and \<^verbatim>\<open>patch\<close> take a path, a body and
  options: the second argument is the body sent. \<^verbatim>\<open>get\<close> and \<^verbatim>\<open>delete\<close> take a path
  and options: the second argument is the options, and the body sent is their
  \<^verbatim>\<open>data\<close>. Each returns a fulfilled promise of the result object that C3 describes for
  what happened to \<open>c\<close>.
\<close>

theorem client_methods:
  "dom (ApiService_methods net) = {''get'', ''post'', ''put'', ''delete''}
   \<and> dom (ApiService2_methods net) = {''request'', ''get'', ''post'', ''put'', ''patch'', ''delete''}
   \<and> (name \<in> dom (ApiService_methods net) \<longrightarrow>
        (\<exists>c. get_prop c ''method'' = Str name
           \<and> get_prop c ''url'' = arg args 0
           \<and> get_prop c ''data'' =
               (if name = ''post'' \<or> name = ''put'' then arg args 1 else get_prop (arg args 1) ''data'')
           \<and> fst (the (ApiService_methods net name) args w) =
            Fulfilled
              (case window w of
                 None \<Rightarrow>
                   Obj [(''success'', Bool False),
                        (''error'', Obj [(''message'', Str ''localStorage is not defined''),
                                         (''status'', Undefined), (''data'', Undefined)])]
               | Some b \<Rightarrow>
                   (case net c of
                      HttpReply status statusText body headers \<Rightarrow>
                        if 200 \<le> status \<and> status < 300
                        then Obj [(''success'', Bool True), (''data'', body)]
                        else Obj [(''success'', Bool False),
                                  (''error'',
                                   Obj [(''message'',
                                         js_or (js_or (get_prop body ''detail'') (get_prop body ''message''))
                                           (Str (''Request failed with status code '' @ show_nat status))),
                                        (''status'', Num (int status)), (''data'', body)])]
                    | NoReply msg \<Rightarrow>
                        Obj [(''success'', Bool False),
                             (''error'', Obj [(''message'', Str msg), (''status'', Undefined),
                                              (''data'', Undefined)])]))))
   \<and> (name \<in> set [''get'', ''post'', ''put'', ''patch'', ''delete''] \<longrightarrow>
        (\<exists>c. Some (get_prop c ''method'') =
               map_of [(''get'', Str ''GET''), (''post'', Str ''POST''), (''put'', Str ''PUT''),
                       (''patch'', Str ''PATCH''), (''delete'', Str ''DELETE'')] name
           \<and> get_prop c ''url'' = arg args 0
           \<and> get_prop c ''data'' =
               (if name = ''post'' \<or> name = ''put'' \<or> name = ''patch'' then arg args 1
                else get_prop (arg args 1) ''data'')
           \<and> fst (the (ApiService2_methods net name) args w) =
            Fulfilled
              (case net c of
                 HttpReply status statusText body headers \<Rightarrow>
                   if 200 \<le> status \<and> status < 300
                   then Obj [(''data'', body), (''status'', Num (int status)),
                             (''statusText'', Str statusText), (''headers'', headers),
                             (''success'', Bool True)]
                   else Obj [(''success'', Bool False), (''status'', Num (int status)),
                             (''statusText'', Str statusText), (''error'', body),
                             (''headers'', headers)]
               | NoReply msg \<Rightarrow>
                   Obj [(''success'', Bool False),
                        (''error'', Obj [(''message'', Str msg), (''code'', Str ''UNKNOWN_ERROR'')])])))"
proof (intro conjI impI)
  show "dom (ApiService_methods net) = {''get'', ''post'', ''put'', ''delete''}"
    by (rule dom_ApiService_methods)
next
  show "dom (ApiService2_methods net) = {''request'', ''get'', ''post'', ''put'', ''patch'', ''delete''}"
    by (rule dom_ApiService2_methods)
next
  assume "name \<in> dom (ApiService_methods net)"
  then show "\<exists>c. get_prop c ''method'' = Str name
           \<and> get_prop c ''url'' = arg args 0
           \<and> get_prop c ''data'' =
               (if name = ''post'' \<or> name = ''put'' then arg args 1 else get_prop (arg args 1) ''data'')
           \<and> fst (the (ApiService_methods net name) args w) =
            Fulfilled
              (case window w of
                 None \<Rightarrow>
                   Obj [(''success'', Bool False),
                        (''error'', Obj [(''message'', Str ''localStorage is not defined''),
                                         (''status'', Undefined), (''data'', Undefined)])]
               | Some b \<Rightarrow>
                   (case net c of
                      HttpReply status statusText body headers \<Rightarrow>
                        if 200 \<le> status \<and> status < 300
                        then Obj [(''success'', Bool True), (''data'', body)]
                        else Obj [(''success'', Bool False),
                                  (''error'',
                                   Obj [(''message'',
                                         js_or (js_or (get_prop body ''detail'') (get_prop body ''message''))
                                           (Str (''Request failed with status code '' @ show_nat status))),
                                        (''status'', Num (int status)), (''data'', body)])]
                    | NoReply msg \<Rightarrow>
                        Obj [(''success'', Bool False),
                             (''error'', Obj [(''message'', Str msg), (''status'', Undefined),
                                              (''data'', Undefined)])]))"
    by (rule ApiService_method_outcome)
next
  assume verb: "name \<in> set [''get'', ''post'', ''put'', ''patch'', ''delete'']"
  then have cases: "name = ''get'' \<or> name = ''post'' \<or> name = ''put'' \<or> name = ''patch'' \<or> name = ''delete''"
    by simp
  then have member: "name \<in> dom (ApiService2_methods net)"
    by (simp add: dom_ApiService2_methods)
  from cases have other: "name \<noteq> ''request''"
    by (elim disjE; simp)
  from ApiService2_method_outcome [OF member, of args w] other
  show "\<exists>c. Some (get_prop c ''method'') =
               map_of [(''get'', Str ''GET''), (''post'', Str ''POST''), (''put'', Str ''PUT''),
                       (''patch'', Str ''PATCH''), (''delete'', Str ''DELETE'')] name
           \<and> get_prop c ''url'' = arg args 0
           \<and> get_prop c ''data'' =
               (if name = ''post'' \<or> name = ''put'' \<or> name = ''patch'' then arg args 1
                else get_prop (arg args 1) ''data'')
           \<and> fst (the (ApiService2_methods net name) args w) =
            Fulfilled
              (case net c of
                 HttpReply status statusText body headers \<Rightarrow>
                   if 200 \<le> status \<and> status < 300
                   then Obj [(''data'', body), (''status'', Num (int status)),
                             (''statusText'', Str statusText), (''headers'', headers),
                             (''success'', Bool True)]
                   else Obj [(''success'', Bool False), (''status'', Num (int status)),
                             (''statusText'', Str statusText), (''error'', body),
                             (''headers'', headers)]
               | NoReply msg \<Rightarrow>
                   Obj [(''success'', Bool False),
                        (''error'', Obj [(''message'', Str msg), (''code'', Str ''UNKNOWN_ERROR'')])])"
    by (simp only: if_False)
qed

text \<open>
  The theorem at \<^verbatim>\<open>post('auth/login', {email: 'a@b.c'})\<close> on a network that answers
  200 to exactly the request with that address and that body, and does not answer any
  other: both clients return their success object.
\<close>

theorem client_methods_witness:
  "''post'' \<in> dom (ApiService_methods
        (\<lambda>c. if get_prop c ''url'' = Str ''auth/login'' \<and> get_prop c ''data'' = Obj [(''email'', Str ''a@b.c'')]
             then HttpReply 200 ''OK'' (Obj [(''token'', Str ''T'')]) (Obj [])
             else NoReply ''Network Error''))
   \<and> ''post'' \<in> set [''get'', ''post'', ''put'', ''patch'', ''delete'']
   \<and> fst (the (ApiService_methods
        (\<lambda>c. if get_prop c ''url'' = Str ''auth/login'' \<and> get_prop c ''data'' = Obj [(''email'', Str ''a@b.c'')]
             then HttpReply 200 ''OK'' (Obj [(''token'', Str ''T'')]) (Obj [])
             else NoReply ''Network Error'')
        ''post'') [Str ''auth/login'', Obj [(''email'', Str ''a@b.c'')]]
        \<lparr>window = Some \<lparr>localStorage = Map.empty, location_href = ''/auth/login''\<rparr>, toasts = []\<rparr>)
       = Fulfilled (Obj [(''success'', Bool True), (''data'', Obj [(''token'', Str ''T'')])])
   \<and> fst (the (ApiService2_methods
        (\<lambda>c. if get_prop c ''url'' = Str ''auth/login'' \<and> get_prop c ''data'' = Obj [(''email'', Str ''a@b.c'')]
             then HttpReply 200 ''OK'' (Obj [(''token'', Str ''T'')]) (Obj [])
             else NoReply ''Network Error'')
        ''post'') [Str ''auth/login'', Obj [(''email'', Str ''a@b.c'')]]
        \<lparr>window = Some \<lparr>localStorage = Map.empty, location_href = ''/auth/login''\<rparr>, toasts = []\<rparr>)
       = Fulfilled (Obj [(''data'', Obj [(''token'', Str ''T'')]), (''status'', Num 200),
                         (''statusText'', Str ''OK''), (''headers'', Obj []), (''success'', Bool True)])"
  using client_methods [where name = "''post''" and args = "[Str ''auth/login'', Obj [(''email'', Str ''a@b.c'')]]"
      and w = "\<lparr>window = Some \<lparr>localStorage = Map.empty, location_href = ''/auth/login''\<rparr>, toasts = []\<rparr>"
      and net = "(\<lambda>c. if get_prop c ''url'' = Str ''auth/login'' \<and> get_prop c ''data'' = Obj [(''email'', Str ''a@b.c'')]
             then HttpReply 200 ''OK'' (Obj [(''token'', Str ''T'')]) (Obj [])
             else NoReply ''Network Error'')"]
  by (simp add: dom_ApiService_methods dom_ApiService2_methods arg_def cong: conj_cong) blast

end
